theory Spec2Isabelle
  imports Complex_Main "HOL-Library.Multiset"
begin

section \<open>The model\<close>

subsection \<open>PricingHeatmap: colour mapping\<close>

text \<open>
  In this part JavaScript numbers are \<^typ>\<open>real\<close>: the finite values only, with exact
  arithmetic (no NaN, no infinities, no rounding).  It is what the code computes
  wherever every intermediate result is itself a double; the part after it computes in
  double arithmetic, with rounding and overflow.  A read \<open>xs[i]\<close> of a JavaScript array
  outside \<open>0 .. length - 1\<close> yields \<open>undefined\<close>; that is \<^term>\<open>None\<close> here.
\<close>

definition DEFAULT_COLOR_SCALE :: "string list" where
  "DEFAULT_COLOR_SCALE =
     [''#22c55e'', ''#84cc16'', ''#eab308'', ''#f97316'', ''#ef4444'']"

definition js_index :: "'a list \<Rightarrow> int \<Rightarrow> 'a option" where
  "js_index xs i = (if 0 \<le> i \<and> i < int (length xs) then Some (xs ! nat i) else None)"

text \<open>
  The local \<open>index\<close> of \<open>getColorFromScale\<close> on its second path:
  \<open>Math.min(Math.floor(normalized * colorScale.length), colorScale.length - 1)\<close>.
\<close>

definition colorIndex :: "real \<Rightarrow> real \<Rightarrow> real \<Rightarrow> nat \<Rightarrow> int" where
  "colorIndex v mn mx n =
     (let normalized = (v - mn) / (mx - mn)
      in min \<lfloor>normalized * real n\<rfloor> (int n - 1))"

definition getColorFromScale :: "real \<Rightarrow> real \<Rightarrow> real \<Rightarrow> string list \<Rightarrow> string option" where
  "getColorFromScale v mn mx colorScale =
     (if mx = mn then js_index colorScale \<lfloor>real (length colorScale) / 2\<rfloor>
      else js_index colorScale (colorIndex v mn mx (length colorScale)))"

subsection \<open>PricingHeatmap: colour mapping in double arithmetic\<close>

text \<open>
  A JavaScript number is an IEEE 754 double.  The definitions of this part compute as
  the platform does: every arithmetic result is rounded to the nearest double, ties to
  the even significand, and a result beyond the largest double becomes an infinity.
  \<open>expo\<close> is the binary exponent of a non-zero real, not below that of the subnormal
  doubles; \<open>ulp\<close> is the spacing of the doubles around it (53 significant bits);
  \<open>to_double\<close> rounds to the nearest multiple of that spacing.
\<close>

definition expo :: "real \<Rightarrow> int" where
  "expo x = max (- 1022) \<lfloor>log 2 \<bar>x\<bar>\<rfloor>"

definition ulp :: "real \<Rightarrow> real" where
  "ulp x = 2 powi (expo x - 52)"

text \<open>Rounding to the nearest integer, a tie going to the even one.\<close>

definition round_even :: "real \<Rightarrow> int" where
  "round_even q =
     (let f = \<lfloor>q\<rfloor>; r = q - of_int f
      in if r < 1/2 then f else if 1/2 < r then f + 1 else if even f then f else f + 1)"

definition to_double :: "real \<Rightarrow> real" where
  "to_double x = (if x = 0 then 0 else of_int (round_even (x / ulp x)) * ulp x)"

text \<open>
  The values of the type \<open>number\<close>.  Zero carries no sign here: in the colour mapping
  the sign of a zero could only matter for a division by zero, and the divisor
  \<open>max - min\<close> of two different doubles is never zero.
\<close>

datatype js_number = NaN | Neg_Infinity | Finite real | Infinity

text \<open>\<open>Number.MAX_VALUE\<close>, the largest double.\<close>

definition MAX_VALUE :: real where
  "MAX_VALUE = (2 ^ 53 - 1) * 2 ^ 971"

text \<open>The result of an operation whose exact value is \<open>x\<close>.\<close>

definition js_round :: "real \<Rightarrow> js_number" where
  "js_round x =
     (let y = to_double x
      in if MAX_VALUE < y then Infinity else if y < - MAX_VALUE then Neg_Infinity else Finite y)"

text \<open>The reals that are finite doubles.\<close>

definition is_double :: "real \<Rightarrow> bool" where
  "is_double x \<longleftrightarrow> to_double x = x \<and> \<bar>x\<bar> \<le> MAX_VALUE"

text \<open>The operators \<open>-\<close>, \<open>*\<close> and \<open>/\<close> on numbers.\<close>

fun js_minus :: "js_number \<Rightarrow> js_number \<Rightarrow> js_number" where
  "js_minus (Finite a) (Finite b) = js_round (a - b)"
| "js_minus NaN y = NaN"
| "js_minus x NaN = NaN"
| "js_minus Infinity Infinity = NaN"
| "js_minus Neg_Infinity Neg_Infinity = NaN"
| "js_minus Infinity y = Infinity"
| "js_minus Neg_Infinity y = Neg_Infinity"
| "js_minus x Infinity = Neg_Infinity"
| "js_minus x Neg_Infinity = Infinity"

fun js_times :: "js_number \<Rightarrow> js_number \<Rightarrow> js_number" where
  "js_times (Finite a) (Finite b) = js_round (a * b)"
| "js_times NaN y = NaN"
| "js_times x NaN = NaN"
| "js_times Infinity (Finite b) =
     (if b = 0 then NaN else if 0 < b then Infinity else Neg_Infinity)"
| "js_times Neg_Infinity (Finite b) =
     (if b = 0 then NaN else if 0 < b then Neg_Infinity else Infinity)"
| "js_times (Finite a) Infinity =
     (if a = 0 then NaN else if 0 < a then Infinity else Neg_Infinity)"
| "js_times (Finite a) Neg_Infinity =
     (if a = 0 then NaN else if 0 < a then Neg_Infinity else Infinity)"
| "js_times Infinity Infinity = Infinity"
| "js_times Neg_Infinity Neg_Infinity = Infinity"
| "js_times Infinity Neg_Infinity = Neg_Infinity"
| "js_times Neg_Infinity Infinity = Neg_Infinity"

fun js_divide :: "js_number \<Rightarrow> js_number \<Rightarrow> js_number" where
  "js_divide (Finite a) (Finite b) =
     (if b = 0 then (if a = 0 then NaN else if 0 < a then Infinity else Neg_Infinity)
      else js_round (a / b))"
| "js_divide NaN y = NaN"
| "js_divide x NaN = NaN"
| "js_divide (Finite a) y = Finite 0"
| "js_divide Infinity (Finite b) = (if 0 \<le> b then Infinity else Neg_Infinity)"
| "js_divide Neg_Infinity (Finite b) = (if 0 \<le> b then Neg_Infinity else Infinity)"
| "js_divide x y = NaN"

text \<open>\<open>Math.floor\<close>, and \<open>Math.min\<close> of two arguments.\<close>

fun Math_floor :: "js_number \<Rightarrow> js_number" where
  "Math_floor (Finite a) = Finite (of_int \<lfloor>a\<rfloor>)"
| "Math_floor x = x"

fun Math_min2 :: "js_number \<Rightarrow> js_number \<Rightarrow> js_number" where
  "Math_min2 (Finite a) (Finite b) = Finite (min a b)"
| "Math_min2 NaN y = NaN"
| "Math_min2 x NaN = NaN"
| "Math_min2 Neg_Infinity y = Neg_Infinity"
| "Math_min2 x Neg_Infinity = Neg_Infinity"
| "Math_min2 Infinity y = y"
| "Math_min2 x Infinity = x"

text \<open>The comparison \<open>a <= b\<close> of two numbers; it is false when either is \<open>NaN\<close>.\<close>

fun js_le :: "js_number \<Rightarrow> js_number \<Rightarrow> bool" where
  "js_le (Finite a) (Finite b) = (a \<le> b)"
| "js_le NaN y = False"
| "js_le x NaN = False"
| "js_le Neg_Infinity y = True"
| "js_le x Infinity = True"
| "js_le x y = False"


text \<open>
  \<open>getColorFromScale\<close> in this arithmetic.  \<open>colorIndex_double\<close> is the local \<open>index\<close>;
  \<open>colorScale.length\<close> and \<open>colorScale.length - 1\<close> are whole numbers below \<open>2^32\<close>,
  so they are exact.
\<close>

definition colorIndex_double :: "real \<Rightarrow> real \<Rightarrow> real \<Rightarrow> nat \<Rightarrow> js_number" where
  "colorIndex_double v mn mx n =
     (let normalized =
            js_divide (js_minus (Finite v) (Finite mn)) (js_minus (Finite mx) (Finite mn))
      in Math_min2 (Math_floor (js_times normalized (Finite (real n)))) (Finite (real n - 1)))"


subsection \<open>PricingHeatmap: value range and summary statistics\<close>

record RegionPricingData =
  region :: string
  region_code :: string
  coordinates :: "real \<times> real"
  avg_price :: real
  min_price :: real
  max_price :: real
  vendor_count :: real
  sku_count :: real
  price_index :: real

datatype metric = Avg_price | Vendor_count | Price_index

text \<open>
  The \<open>switch (selectedMetric)\<close> inside \<open>data.map\<close>; its \<open>default\<close> arm is unreachable
  for the three values of the type.
\<close>

fun metricValue :: "metric \<Rightarrow> RegionPricingData \<Rightarrow> real" where
  "metricValue Avg_price d = avg_price d"
| "metricValue Vendor_count d = vendor_count d"
| "metricValue Price_index d = price_index d"

text \<open>
  \<open>Math.min(...values)\<close> and \<open>Math.max(...values)\<close>, called by the source on a
  non-empty array only.
\<close>

definition Math_min :: "real list \<Rightarrow> real" where
  "Math_min values = Min (set values)"

definition Math_max :: "real list \<Rightarrow> real" where
  "Math_max values = Max (set values)"

text \<open>
  The \<open>useMemo\<close> that yields \<open>{minValue, maxValue}\<close>; \<open>cfgMin\<close> and \<open>cfgMax\<close> are
  \<open>config.minValue\<close> and \<open>config.maxValue\<close>, and \<open>a ?? b\<close> takes \<open>b\<close> only when \<open>a\<close>
  is absent.
\<close>

definition heatmapRange ::
  "RegionPricingData list \<Rightarrow> metric \<Rightarrow> real option \<Rightarrow> real option \<Rightarrow> real \<times> real" where
  "heatmapRange data selectedMetric cfgMin cfgMax =
     (if length data = 0 then (0, 100)
      else
        let values = map (metricValue selectedMetric) data
        in (case cfgMin of Some m \<Rightarrow> m | None \<Rightarrow> Math_min values,
            case cfgMax of Some m \<Rightarrow> m | None \<Rightarrow> Math_max values))"

text \<open>The summary block: three \<open>reduce\<close> calls, each a left fold from 0.\<close>

definition totalVendors :: "RegionPricingData list \<Rightarrow> real" where
  "totalVendors data = foldl (\<lambda>sum d. sum + vendor_count d) 0 data"

definition totalSKUs :: "RegionPricingData list \<Rightarrow> real" where
  "totalSKUs data = foldl (\<lambda>sum d. sum + sku_count d) 0 data"

text \<open>
  The average price shown for all regions.  \<open>formatCurrency\<close> wraps the platform's
  \<open>Intl.NumberFormat\<close> and is a parameter here.
\<close>

definition avgPriceAllRegions :: "(real \<Rightarrow> string) \<Rightarrow> RegionPricingData list \<Rightarrow> string" where
  "avgPriceAllRegions formatCurrency data =
     (if length data > 0
      then formatCurrency (foldl (\<lambda>sum d. sum + avg_price d) 0 data / real (length data))
      else ''$0.00'')"

subsection \<open>VendorMatrix\<close>

record Vendor =
  vendor_id :: string
  vendor_name :: string
  api_enabled :: bool
  is_active :: bool

record VendorMatrixCell =
  vendor_id :: string
  sku_id :: string
  has_pricing :: bool
  price :: "real option"
  price_rank :: "real option"
  is_primary_supplier :: bool

datatype sortBy = Name | Coverage | Price

text \<open>
  \<open>Array.prototype.sort(compare)\<close> is the language's built-in: it is stable, and with
  a consistent comparator it yields the one stable ordering, which insertion from the
  right computes.  An element goes before the first element it does not compare
  greater than.
\<close>

fun insertBy :: "('a \<Rightarrow> 'a \<Rightarrow> int) \<Rightarrow> 'a \<Rightarrow> 'a list \<Rightarrow> 'a list" where
  "insertBy compare x [] = [x]"
| "insertBy compare x (y # ys) =
     (if compare x y \<le> 0 then x # y # ys else y # insertBy compare x ys)"

definition array_sort :: "('a \<Rightarrow> 'a \<Rightarrow> int) \<Rightarrow> 'a list \<Rightarrow> 'a list" where
  "array_sort compare xs = foldr (insertBy compare) xs []"

text \<open>
  The counts taken inside the comparators: \<open>data.matrix.flat().filter(...).length\<close>.
\<close>

definition coverageCount :: "VendorMatrixCell list list \<Rightarrow> Vendor \<Rightarrow> nat" where
  "coverageCount matrix a =
     length (filter (\<lambda>c. VendorMatrixCell.vendor_id c = Vendor.vendor_id a \<and> has_pricing c)
       (concat matrix))"

definition bestPriceCount :: "VendorMatrixCell list list \<Rightarrow> Vendor \<Rightarrow> nat" where
  "bestPriceCount matrix a =
     length (filter (\<lambda>c. VendorMatrixCell.vendor_id c = Vendor.vendor_id a \<and> price_rank c = Some 1)
       (concat matrix))"

text \<open>
  \<open>sortedVendors\<close>; \<open>localeCompare\<close> is the platform's string collation and is a
  parameter.
\<close>

definition sortedVendors ::
  "(string \<Rightarrow> string \<Rightarrow> int) \<Rightarrow> Vendor list \<Rightarrow> VendorMatrixCell list list \<Rightarrow> sortBy
     \<Rightarrow> Vendor list" where
  "sortedVendors localeCompare vendors matrix sortBy =
     (case sortBy of
        Name \<Rightarrow> array_sort (\<lambda>a b. localeCompare (vendor_name a) (vendor_name b)) vendors
      | Coverage \<Rightarrow>
          array_sort (\<lambda>a b. int (coverageCount matrix b) - int (coverageCount matrix a)) vendors
      | Price \<Rightarrow>
          array_sort (\<lambda>a b. int (bestPriceCount matrix b) - int (bestPriceCount matrix a)) vendors)"

definition isSingleSource :: "VendorMatrixCell list list \<Rightarrow> string \<Rightarrow> bool" where
  "isSingleSource matrix skuId =
     (let skuCells = filter (\<lambda>c. sku_id c = skuId \<and> has_pricing c) (concat matrix)
      in length skuCells = 1)"

subsection \<open>SKUSearch: filter changes\<close>

text \<open>
  \<open>handleFilterChange\<close> takes a value of type \<open>unknown\<close>; the values the panel passes are
  \<open>undefined\<close>, booleans, numbers and strings.  A filter field that is absent reads as
  \<open>undefined\<close>.
\<close>

datatype js_value = Undefined | Bool bool | Num real | Str string

fun truthy :: "js_value \<Rightarrow> bool" where
  "truthy Undefined = False"
| "truthy (Bool b) = b"
| "truthy (Num x) = (x \<noteq> 0)"
| "truthy (Str s) = (s \<noteq> [])"

text \<open>The operator \<open>a || b\<close>.\<close>

definition js_or :: "js_value \<Rightarrow> js_value \<Rightarrow> js_value" where
  "js_or a b = (if truthy a then a else b)"

datatype filter_key = Query | Category | Supplier_id | Region | Min_price | Max_price | Is_active

type_synonym SKUSearchFilters = "filter_key \<Rightarrow> js_value"

text \<open>
  The state of the panel that matters here: the \<open>filters\<close> state and the calls of the
  external \<open>onSearch\<close> callback, oldest first.
\<close>

record search_panel =
  filters :: SKUSearchFilters
  onSearch :: "SKUSearchFilters list"

definition handleFilterChange :: "filter_key \<Rightarrow> js_value \<Rightarrow> search_panel \<Rightarrow> search_panel" where
  "handleFilterChange key v st =
     (let newFilters = (filters st)(key := js_or v Undefined)
      in st\<lparr>filters := newFilters, onSearch := onSearch st @ [newFilters]\<rparr>)"

text \<open>
  The \<open>onChange\<close> handlers of the advanced filters.  \<open>raw\<close> is \<open>e.target.value\<close>, a
  string; \<open>parseFloat\<close> is the built-in and is a parameter.
\<close>

definition minPriceChange :: "(string \<Rightarrow> real) \<Rightarrow> string \<Rightarrow> search_panel \<Rightarrow> search_panel" where
  "minPriceChange parseFloat raw st =
     handleFilterChange Min_price (if raw \<noteq> [] then Num (parseFloat raw) else Undefined) st"

definition maxPriceChange :: "(string \<Rightarrow> real) \<Rightarrow> string \<Rightarrow> search_panel \<Rightarrow> search_panel" where
  "maxPriceChange parseFloat raw st =
     handleFilterChange Max_price (if raw \<noteq> [] then Num (parseFloat raw) else Undefined) st"

definition isActiveChange :: "bool \<Rightarrow> search_panel \<Rightarrow> search_panel" where
  "isActiveChange checked st =
     handleFilterChange Is_active (if checked then Undefined else Bool False) st"

text \<open>The filters of the most recent \<open>onSearch\<close> call at one key.\<close>

definition dispatched :: "search_panel \<Rightarrow> filter_key \<Rightarrow> js_value" where
  "dispatched st key = last (onSearch st) key"

subsection \<open>PromoCalibrationSlider\<close>

record PromoSimulationResponse =
  projected_lift :: real
  confidence_interval :: "real \<times> real"
  ai_recommended_value :: real
  calibration_score :: real
  latency_ms :: real
  model_version :: string

text \<open>
  One mounted slider: the seven \<open>useState\<close> cells, the \<open>abortControllerRef\<close>, and what
  the component has done to its surroundings.  An \<open>AbortController\<close> is named by the
  number of the request it was created for (the first is 0); \<open>aborted\<close> holds those whose
  \<open>abort()\<close> has been called; \<open>requests\<close> are the \<open>fetch\<close> calls made, each with its
  controller and the \<open>promo_value\<close> of its body; \<open>consoleErrors\<close> counts the
  \<open>console.error\<close> calls; \<open>onValueChange\<close> lists the values passed to the external
  callback.  \<open>pending\<close> and \<open>invocations\<close> belong to the debounced function: the armed
  timer (the time it is due, in milliseconds, and the latest argument) and the trailing
  calls it has made (time and argument).
\<close>

record slider =
  sliderValue :: real
  aiRecommendedValue :: real
  confidenceInterval :: "real \<times> real"
  projectedLift :: real
  calibrationScore :: real
  isLoading :: bool
  latencyMs :: real
  abortControllerRef :: "nat option"
  aborted :: "nat list"
  requests :: "(nat \<times> real) list"
  consoleErrors :: nat
  onValueChange :: "real list"
  pending :: "(nat \<times> real) option"
  invocations :: "(nat \<times> real) list"

text \<open>The state after mounting, from the \<open>useState\<close> and \<open>useRef\<close> initialisers.\<close>

definition mounted :: "real \<Rightarrow> real \<times> real \<Rightarrow> slider" where
  "mounted initialAiValue initialConfidenceInterval =
     \<lparr>sliderValue = initialAiValue, aiRecommendedValue = initialAiValue,
      confidenceInterval = initialConfidenceInterval, projectedLift = 0,
      calibrationScore = 8/10, isLoading = False, latencyMs = 0,
      abortControllerRef = None, aborted = [], requests = [], consoleErrors = 0,
      onValueChange = [], pending = None, invocations = []\<rparr>"

text \<open>
  \<open>callInferenceAPI\<close> up to its \<open>await fetch(...)\<close>: abort the controller in the ref, if
  any, put a new controller there, set \<open>isLoading\<close>, and send the request.
\<close>

definition callInferenceAPI :: "real \<Rightarrow> slider \<Rightarrow> slider" where
  "callInferenceAPI v st =
     (let stopped = (case abortControllerRef st of
                       Some c \<Rightarrow> c # aborted st
                     | None \<Rightarrow> aborted st);
          controller = length (requests st)
      in st\<lparr>aborted := stopped, abortControllerRef := Some controller, isLoading := True,
            requests := requests st @ [(controller, v)]\<rparr>)"

text \<open>How the network answers a request.\<close>

datatype fetch_outcome =
    Responded_ok PromoSimulationResponse
  | Responded_not_ok
  | Network_failure

text \<open>
  The rest of \<open>callInferenceAPI\<close>, run when the \<open>fetch\<close> of the request with controller
  \<open>c\<close> settles.  A \<open>fetch\<close> whose signal was aborted rejects with an \<open>AbortError\<close>,
  whatever the network did: the \<open>catch\<close> block stays silent.  A response that is not
  \<open>ok\<close> and a network failure throw, and the \<open>catch\<close> block logs them.  A response that
  is \<open>ok\<close> is written to the five state cells.  The \<open>finally\<close> block runs on every path.
\<close>

definition settle :: "nat \<Rightarrow> fetch_outcome \<Rightarrow> slider \<Rightarrow> slider" where
  "settle c outcome st =
     (if c \<in> set (aborted st) then st\<lparr>isLoading := False\<rparr>
      else
        (case outcome of
           Responded_ok data \<Rightarrow>
             st\<lparr>confidenceInterval := confidence_interval data,
                aiRecommendedValue := ai_recommended_value data,
                projectedLift := projected_lift data,
                calibrationScore := calibration_score data,
                latencyMs := latency_ms data,
                isLoading := False\<rparr>
         | Responded_not_ok \<Rightarrow> st\<lparr>consoleErrors := consoleErrors st + 1, isLoading := False\<rparr>
         | Network_failure \<Rightarrow> st\<lparr>consoleErrors := consoleErrors st + 1, isLoading := False\<rparr>))"

text \<open>
  Modelled from the spec: \<open>debounce\<close> of the package \<open>lodash.debounce\<close>, which the
  component imports and whose code is not part of the sources.  The spec: a debounce
  timer (300ms quiet period) is (re)armed on every drag event; only the most recent arm
  fires a remote calibration request after the quiet period elapses with no further
  drags.  \<open>debouncedInference now v\<close> is a call of the debounced function at time \<open>now\<close>;
  \<open>elapse now\<close> lets the clock reach \<open>now\<close>, where a timer that is due makes its one
  trailing call of \<open>callInferenceAPI\<close> with the latest argument.
\<close>

definition debouncedInference :: "nat \<Rightarrow> real \<Rightarrow> slider \<Rightarrow> slider" where
  "debouncedInference now v st = st\<lparr>pending := Some (now + 300, v)\<rparr>"

definition elapse :: "nat \<Rightarrow> slider \<Rightarrow> slider" where
  "elapse now st =
     (case pending st of
        None \<Rightarrow> st
      | Some (due, v) \<Rightarrow>
          if due \<le> now
          then callInferenceAPI v (st\<lparr>pending := None, invocations := invocations st @ [(due, v)]\<rparr>)
          else st)"

text \<open>
  \<open>handleSliderChange\<close> for a change event at time \<open>now\<close> whose target value is
  \<open>newValue\<close>.
\<close>

definition handleSliderChange :: "nat \<Rightarrow> real \<Rightarrow> slider \<Rightarrow> slider" where
  "handleSliderChange now newValue st =
     debouncedInference now newValue
       (st\<lparr>sliderValue := newValue, onValueChange := onValueChange st @ [newValue]\<rparr>)"




text \<open>
  What can happen to a mounted slider: a change event of the range input at some time,
  the clock reaching some time, and the \<open>fetch\<close> of a request that has been sent
  settling with some answer.  \<open>history\<close> runs a list of such events in order.  A change
  event may come from the user or be dispatched by a program; the \<open>disabled\<close> attribute
  that the input carries while loading is not part of the model, so a change event may
  arrive while a request is in flight.
\<close>

datatype slider_event = Drag nat real | Tick nat | Settle nat fetch_outcome

fun occur :: "slider_event \<Rightarrow> slider \<Rightarrow> slider" where
  "occur (Drag now v) st = handleSliderChange now v (elapse now st)"
| "occur (Tick now) st = elapse now st"
| "occur (Settle c outcome) st = (if c < length (requests st) then settle c outcome st else st)"

definition history :: "slider_event list \<Rightarrow> slider \<Rightarrow> slider" where
  "history events st = foldl (\<lambda>s e. occur e s) st events"

text \<open>
  Every request but the last one sent has had its controller aborted, and the ref holds
  the controller of the last one.
\<close>

definition latest_live :: "slider \<Rightarrow> bool" where
  "latest_live st \<longleftrightarrow>
     (\<forall>c. Suc c < length (requests st) \<longrightarrow> c \<in> set (aborted st)) \<and>
     (requests st \<noteq> [] \<longrightarrow> abortControllerRef st = Some (length (requests st) - 1))"


subsection \<open>Sample data\<close>

definition CA :: RegionPricingData where
  "CA = \<lparr>region = ''California'', region_code = ''CA'', coordinates = (36, -119),
     avg_price = 7/2, min_price = 3, max_price = 4, vendor_count = 12, sku_count = 40,
     price_index = 1\<rparr>"

definition TX :: RegionPricingData where
  "TX = \<lparr>region = ''Texas'', region_code = ''TX'', coordinates = (31, -99),
     avg_price = 19/10, min_price = 1, max_price = 2, vendor_count = 8, sku_count = 30,
     price_index = 0\<rparr>"

definition cell :: "string \<Rightarrow> string \<Rightarrow> bool \<Rightarrow> VendorMatrixCell" where
  "cell v s p = \<lparr>VendorMatrixCell.vendor_id = v, sku_id = s, has_pricing = p,
     price = (if p then Some 2 else None), price_rank = (if p then Some 1 else None),
     is_primary_supplier = False\<rparr>"

definition vendor :: "string \<Rightarrow> Vendor" where
  "vendor v = \<lparr>Vendor.vendor_id = v, vendor_name = v, api_enabled = False, is_active = True\<rparr>"

definition sampleMatrix :: "VendorMatrixCell list list" where
  "sampleMatrix =
     [[cell ''A'' ''S1'' True, cell ''A'' ''S2'' False, cell ''A'' ''S3'' False],
      [cell ''B'' ''S1'' True, cell ''B'' ''S2'' True, cell ''B'' ''S3'' False],
      [cell ''C'' ''S1'' False, cell ''C'' ''S2'' False, cell ''C'' ''S3'' True]]"

definition emptyPanel :: search_panel where
  "emptyPanel = \<lparr>filters = (\<lambda>k. Undefined), onSearch = []\<rparr>"

definition sampleResponse :: PromoSimulationResponse where
  "sampleResponse = \<lparr>projected_lift = 12, confidence_interval = (11, 19),
     ai_recommended_value = 14, calibration_score = 9/10, latency_ms = 42,
     model_version = ''v1''\<rparr>"

definition overlap :: "slider_event list" where
  "overlap = [Drag 0 10, Tick 300, Drag 350 15, Tick 650]"


definition ONE_POINT_TWO :: real where
  "ONE_POINT_TWO = 5404319552844595 / 2 ^ 52"

section \<open>Properties\<close>

subsection \<open>Facts about the colour mapping\<close>

lemma floor_half_length: "\<lfloor>real n / 2\<rfloor> = int (n div 2)"
proof -
  have "\<lfloor>real n / 2\<rfloor> = \<lfloor>real_of_int (int n) / real_of_int 2\<rfloor>"
    by simp
  also have "\<dots> = int n div 2"
    by (rule floor_divide_of_int_eq)
  finally show ?thesis
    by (simp add: zdiv_int)
qed

lemma colorIndex_upper: "0 < n \<Longrightarrow> colorIndex v mn mx n < int n"
  by (simp add: colorIndex_def Let_def min_def)

lemma colorIndex_lower:
  assumes "mn < mx" and "mn \<le> v" and "0 < n"
  shows "0 \<le> colorIndex v mn mx n"
proof -
  have "0 \<le> (v - mn) / (mx - mn) * real n"
    using assms by simp
  then have "0 \<le> \<lfloor>(v - mn) / (mx - mn) * real n\<rfloor>"
    by simp
  then show ?thesis
    using assms(3) by (simp add: colorIndex_def Let_def min_def)
qed

lemma getColorFromScale_in_palette_above_min:
  assumes "mn < mx" and "mn \<le> v" and "colorScale \<noteq> []"
  shows "\<exists>c \<in> set colorScale. getColorFromScale v mn mx colorScale = Some c"
proof -
  let ?i = "colorIndex v mn mx (length colorScale)"
  have lo: "0 \<le> ?i"
    using assms by (simp add: colorIndex_lower)
  have hi: "?i < int (length colorScale)"
    using assms(3) by (simp add: colorIndex_upper)
  from lo hi have "nat ?i < length colorScale"
    by simp
  then have "colorScale ! nat ?i \<in> set colorScale"
    by (rule nth_mem)
  moreover have "getColorFromScale v mn mx colorScale = Some (colorScale ! nat ?i)"
    using assms(1) lo hi by (simp add: getColorFromScale_def js_index_def)
  ultimately show ?thesis
    by blast
qed

lemma getColorFromScale_below_min:
  assumes "mn < mx" and "v < mn" and "colorScale \<noteq> []"
  shows "getColorFromScale v mn mx colorScale = None"
proof -
  let ?n = "real (length colorScale)"
  have "(v - mn) / (mx - mn) < 0"
    using assms(1,2) by (simp add: divide_neg_pos)
  moreover have "0 < ?n"
    using assms(3) by simp
  ultimately have "(v - mn) / (mx - mn) * ?n < 0"
    by (rule mult_neg_pos)
  then have "\<lfloor>(v - mn) / (mx - mn) * ?n\<rfloor> < 0"
    unfolding floor_less_iff by simp
  moreover have "colorIndex v mn mx (length colorScale) \<le> \<lfloor>(v - mn) / (mx - mn) * ?n\<rfloor>"
    unfolding colorIndex_def Let_def by (rule min.cobounded1)
  ultimately have "colorIndex v mn mx (length colorScale) < 0"
    by (rule le_less_trans [rotated])
  then show ?thesis
    using assms(1) by (simp add: getColorFromScale_def js_index_def)
qed

text \<open>
  C1.  The claim: for \<open>min < max\<close> and a non-empty palette, \<open>getColorFromScale\<close>
  returns one of the palette's entries, also for a value below \<open>min\<close>, because the
  index is clamped into \<open>[0, N - 1]\<close>.  The source clamps the index from above only
  (\<open>Math.min\<close>, no \<open>Math.max(0, ...)\<close>): for value 0 in the domain 10 .. 20 and the
  default five-colour palette the index is \<open>-5\<close> and the function returns
  \<open>undefined\<close>, no palette entry.
\<close>

theorem getColorFromScale_below_min_undefined:
  "colorIndex 0 10 20 (length DEFAULT_COLOR_SCALE) = -5 \<and>
   getColorFromScale 0 10 20 DEFAULT_COLOR_SCALE = None"
  by (simp add: getColorFromScale_def colorIndex_def js_index_def DEFAULT_COLOR_SCALE_def)

text \<open>
  C6.  When \<open>min = max\<close> the function returns the palette entry at index
  \<open>floor (N / 2)\<close>, whatever the value; for a non-empty palette that index is in range,
  so the entry exists.
\<close>

theorem getColorFromScale_degenerate_middle:
  "getColorFromScale v m m colorScale = js_index colorScale (int (length colorScale div 2)) \<and>
   (colorScale \<noteq> [] \<longrightarrow>
      getColorFromScale v m m colorScale = Some (colorScale ! (length colorScale div 2)))"
proof -
  have eq: "getColorFromScale v m m colorScale =
      js_index colorScale (int (length colorScale div 2))"
    by (simp add: getColorFromScale_def floor_half_length)
  have "length colorScale div 2 < length colorScale" if "colorScale \<noteq> []"
    using that by (cases colorScale) simp_all
  then show ?thesis
    using eq by (simp add: js_index_def)
qed

theorem getColorFromScale_degenerate_middle_witness:
  "DEFAULT_COLOR_SCALE \<noteq> [] \<and>
   getColorFromScale 7 3 3 DEFAULT_COLOR_SCALE = Some ''#eab308''"
  using getColorFromScale_degenerate_middle [of 7 3 DEFAULT_COLOR_SCALE]
  by (simp add: DEFAULT_COLOR_SCALE_def js_index_def)

subsection \<open>Rounding to doubles\<close>

lemma round_even_of_int [simp]: "round_even (of_int n) = n"
  by (simp add: round_even_def)

lemma round_even_bounds: "of_int (round_even q) - 1/2 \<le> q \<and> q \<le> of_int (round_even q) + 1/2"
  unfolding round_even_def Let_def by (auto; linarith)


lemma round_even_minus: "round_even (- q) = - round_even q"
proof (cases "q = of_int \<lfloor>q\<rfloor>")
  case True
  then obtain n where "q = of_int n"
    by blast
  then have "- q = of_int (- n)"
    by simp
  then show ?thesis
    using \<open>q = of_int n\<close> by (metis round_even_of_int)
next
  case False
  then have fl: "\<lfloor>- q\<rfloor> = - \<lfloor>q\<rfloor> - 1"
    by (simp add: floor_minus ceiling_altdef)
  show ?thesis
    unfolding round_even_def Let_def fl using False by (auto; linarith)
qed


lemma expo_minus [simp]: "expo (- x) = expo x"
  by (simp add: expo_def)

lemma ulp_minus [simp]: "ulp (- x) = ulp x"
  by (simp add: ulp_def)

lemma ulp_pos [simp]: "0 < ulp x"
  by (simp add: ulp_def zero_less_power_int)

lemma to_double_minus: "to_double (- x) = - to_double x"
  by (simp add: to_double_def round_even_minus)

lemma two_powr_int: "2 powr real_of_int k = (2::real) powi k"
  by (simp add: powr_real_of_int')




lemma ulp_scale: "2 powi k / ulp x = 2 powi (k - expo x + 52)"
proof -
  have "2 powi k / ulp x = (2::real) powi (k - (expo x - 52))"
    unfolding ulp_def by (simp add: power_int_diff)
  then show ?thesis
    by (simp add: algebra_simps)
qed

lemma two_powi_nat: "(2::real) powi int n = 2 ^ n"
  by (simp add: power_int_def)










lemma expo_le:
  assumes "x \<noteq> 0" and "\<bar>x\<bar> < 2 powi (j + 1)" and "- 1022 \<le> j"
  shows "expo x \<le> j"
proof -
  have "\<bar>x\<bar> < 2 powr real_of_int (j + 1)"
    using assms(2) by (simp only: two_powr_int)
  then have "log 2 \<bar>x\<bar> < real_of_int (j + 1)"
    using assms(1) by (simp add: log_less_iff)
  then have "\<lfloor>log 2 \<bar>x\<bar>\<rfloor> < j + 1"
    unfolding floor_less_iff .
  then show ?thesis
    using assms(3) by (simp add: expo_def)
qed

lemma divide_times_cancel: "u \<noteq> 0 \<Longrightarrow> a / u * u = (a::real)"
  by simp

lemma to_double_exact:
  assumes "\<bar>m\<bar> < 2 ^ 53" and "- 1074 \<le> k"
  shows "to_double (of_int m * 2 powi k) = of_int m * 2 powi k"
proof (cases "m = 0")
  case True
  then show ?thesis
    by (simp add: to_double_def)
next
  case False
  let ?x = "real_of_int m * 2 powi k"
  have nz: "?x \<noteq> 0"
    using False by simp
  have "\<bar>?x\<bar> = real_of_int \<bar>m\<bar> * 2 powi k"
    by (simp add: abs_mult)
  also have "\<dots> < real_of_int (2 ^ 53) * 2 powi k"
    using assms(1) by (intro mult_strict_right_mono) (simp_all add: zero_less_power_int)
  also have "real_of_int (2 ^ 53) = 2 powi 53"
    using two_powi_nat [of 53] by simp
  also have "(2::real) powi 53 * 2 powi k = 2 powi (53 + k)"
    by (rule power_int_add [symmetric]) simp
  also have "53 + k = k + 52 + 1"
    by simp
  finally have "expo ?x \<le> k + 52"
    using nz assms(2) by (intro expo_le) simp_all
  then have "k - expo ?x + 52 = int (nat (k - expo ?x + 52))"
    by simp
  then obtain j where j: "k - expo ?x + 52 = int j" ..
  have "?x / ulp ?x = real_of_int m * (2 powi k / ulp ?x)"
    by simp
  also have "\<dots> = real_of_int m * 2 powi (k - expo ?x + 52)"
    by (simp only: ulp_scale)
  also have "\<dots> = real_of_int (m * 2 ^ j)"
    unfolding j by (simp add: two_powi_nat)
  finally have q: "?x / ulp ?x = real_of_int (m * 2 ^ j)" .
  have "real_of_int (m * 2 ^ j) * ulp ?x = ?x / ulp ?x * ulp ?x"
    by (simp only: q)
  also have "\<dots> = ?x"
  proof -
    have "ulp ?x \<noteq> 0"
      using ulp_pos [of ?x] by linarith
    then show ?thesis
      by (rule divide_times_cancel)
  qed
  finally have "real_of_int (round_even (?x / ulp ?x)) * ulp ?x = ?x"
    by (simp only: q round_even_of_int)
  then show ?thesis
    using nz by (simp only: to_double_def if_False)
qed

lemma to_double_of_int:
  assumes "\<bar>m\<bar> < 2 ^ 53"
  shows "to_double (of_int m) = of_int m"
  using to_double_exact [OF assms, of 0] by simp

subsection \<open>The colour mapping in double arithmetic\<close>

lemma MAX_VALUE_pos: "0 < MAX_VALUE"
  by (simp add: MAX_VALUE_def)

lemma js_round_not_NaN [simp]: "js_round x \<noteq> NaN"
  by (simp add: js_round_def Let_def)


lemma js_le_Neg_Infinity [simp]: "js_le Neg_Infinity y \<longleftrightarrow> y \<noteq> NaN"
  by (cases y) simp_all

lemma js_le_Infinity [simp]: "js_le x Infinity \<longleftrightarrow> x \<noteq> NaN"
  by (cases x) simp_all








lemma to_double_0 [simp]: "to_double 0 = 0"
  by (simp add: to_double_def)

lemma to_double_1 [simp]: "to_double 1 = 1"
  using to_double_of_int [of 1] by simp



lemma to_double_half [simp]: "to_double (1/2) = 1/2"
  using to_double_exact [of 1 "- 1"] by simp





lemma js_round_0 [simp]: "js_round 0 = Finite 0"
  using MAX_VALUE_pos by (simp add: js_round_def Let_def)

lemma js_round_half [simp]: "js_round (1/2) = Finite (1/2)"
  by (simp add: js_round_def Let_def MAX_VALUE_def)

lemma js_round_fits:
  assumes "to_double x = x" and "\<bar>x\<bar> \<le> MAX_VALUE"
  shows "js_round x = Finite x"
proof -
  from assms(2) have "\<not> MAX_VALUE < x" and "\<not> x < - MAX_VALUE"
    by linarith+
  then show ?thesis
    by (simp add: js_round_def Let_def assms(1))
qed



lemma js_round_1 [simp]: "js_round 1 = Finite 1" "js_round (- 1) = Finite (- 1)"
  by (rule js_round_fits; simp add: to_double_minus MAX_VALUE_def)+

text \<open>
  The double nearest to 1.2 in the domain 1 .. 1.5 with five colours: every step is
  exact and the product is \<open>2 - 2^-51\<close>, so the index is 1.
\<close>

lemma colorIndex_double_rounded_input:
  "is_double ONE_POINT_TWO \<and> is_double 1 \<and> is_double (3/2) \<and>
   colorIndex_double ONE_POINT_TWO 1 (3/2) (length DEFAULT_COLOR_SCALE) = Finite 1"
proof -
  have fits: "js_round (real_of_int m * 2 powi k) = Finite (real_of_int m * 2 powi k)"
    if "\<bar>m\<bar> < 2 ^ 53" and "- 1074 \<le> k" and "k \<le> 0" for m k
  proof (rule js_round_fits)
    show "to_double (real_of_int m * 2 powi k) = real_of_int m * 2 powi k"
      using that(1,2) by (rule to_double_exact)
    have "(2::real) powi k \<le> 2 powi 0"
      using that(3) by (intro power_int_increasing) simp_all
    then have "\<bar>real_of_int m * 2 powi k\<bar> \<le> \<bar>real_of_int m\<bar> * 1"
      unfolding abs_mult by (intro mult_left_mono) (simp_all add: zero_less_power_int less_imp_le)
    also have "\<bar>real_of_int m\<bar> < real_of_int (2 ^ 53)"
      using that(1) unfolding of_int_abs [symmetric] by (simp only: of_int_less_iff)
    also have "real_of_int (2 ^ 53) \<le> MAX_VALUE"
      by (simp add: MAX_VALUE_def)
    finally show "\<bar>real_of_int m * 2 powi k\<bar> \<le> MAX_VALUE"
      by simp
  qed
  have t: "to_double ONE_POINT_TWO = ONE_POINT_TWO"
    using to_double_exact [of 5404319552844595 "- 52"] by (simp add: ONE_POINT_TWO_def)
  have d: "is_double ONE_POINT_TWO" "is_double 1" "is_double (3/2)"
    using t to_double_exact [of 3 "- 1"]
    by (simp_all add: is_double_def MAX_VALUE_def ONE_POINT_TWO_def)
  have s1: "js_round (ONE_POINT_TWO - 1) = Finite (900719925474099 / 2 ^ 52)"
    using fits [of 900719925474099 "- 52"] by (simp add: ONE_POINT_TWO_def)
  have s2: "js_round (3/2 - 1) = Finite (1/2)"
    by simp
  have s3: "js_round (900719925474099 / 2 ^ 52 / (1/2)) = Finite (900719925474099 / 2 ^ 51)"
    using fits [of 900719925474099 "- 51"] by simp
  have s4: "js_round (900719925474099 / 2 ^ 51 * 5) = Finite (4503599627370495 / 2 ^ 51)"
    using fits [of 4503599627370495 "- 51"] by simp
  have s5: "\<lfloor>4503599627370495 / 2 ^ 51 :: real\<rfloor> = 1"
    by simp
  have "colorIndex_double ONE_POINT_TWO 1 (3/2) (length DEFAULT_COLOR_SCALE) = Finite 1"
    unfolding colorIndex_double_def Let_def js_minus.simps s1 s2 js_divide.simps
    using s3 s4 s5 by (simp add: DEFAULT_COLOR_SCALE_def)
  with d show ?thesis
    by simp
qed




subsection \<open>Heatmap range and summary\<close>

lemma Math_min_least:
  assumes "values \<noteq> []"
  shows "Math_min values \<in> set values \<and> (\<forall>x \<in> set values. Math_min values \<le> x)"
  using assms by (simp add: Math_min_def)

lemma Math_max_greatest:
  assumes "values \<noteq> []"
  shows "Math_max values \<in> set values \<and> (\<forall>x \<in> set values. x \<le> Math_max values)"
  using assms by (simp add: Math_max_def)

lemma heatmapRange_bounds:
  assumes ne: "data \<noteq> []"
  shows "fst (heatmapRange data selectedMetric None cfgMax) \<in> metricValue selectedMetric ` set data"
    and "\<forall>d \<in> set data.
           fst (heatmapRange data selectedMetric None cfgMax) \<le> metricValue selectedMetric d"
    and "snd (heatmapRange data selectedMetric cfgMin None) \<in> metricValue selectedMetric ` set data"
    and "\<forall>d \<in> set data.
           metricValue selectedMetric d \<le> snd (heatmapRange data selectedMetric cfgMin None)"
proof -
  let ?vs = "map (metricValue selectedMetric) data"
  from ne have vs: "?vs \<noteq> []"
    by simp
  have mn: "fst (heatmapRange data selectedMetric None cfgMax) = Math_min ?vs"
    using ne by (simp add: heatmapRange_def Let_def)
  have mx: "snd (heatmapRange data selectedMetric cfgMin None) = Math_max ?vs"
    using ne by (simp add: heatmapRange_def Let_def)
  show "fst (heatmapRange data selectedMetric None cfgMax) \<in> metricValue selectedMetric ` set data"
    and "\<forall>d \<in> set data.
           fst (heatmapRange data selectedMetric None cfgMax) \<le> metricValue selectedMetric d"
    using Math_min_least [OF vs] unfolding mn by simp_all
  show "snd (heatmapRange data selectedMetric cfgMin None) \<in> metricValue selectedMetric ` set data"
    and "\<forall>d \<in> set data.
           metricValue selectedMetric d \<le> snd (heatmapRange data selectedMetric cfgMin None)"
    using Math_max_greatest [OF vs] unfolding mx by simp_all
qed

text \<open>
  C5.  For an empty collection the range is exactly \<open>(0, 100)\<close>, whatever the overrides,
  the vendor and SKU totals are 0 and the average price is shown as \<open>$0.00\<close>; no path
  of the code fails.  For a non-empty collection each bound is the caller's override when
  there is one.  Otherwise it is the least, respectively greatest, value over the
  collection of the field that the selected metric names: \<open>avg_price\<close> for the
  average-price metric, \<open>vendor_count\<close> for the vendor-count metric and \<open>price_index\<close>
  for the price-index metric.
\<close>

theorem heatmap_empty_and_range:
  "heatmapRange [] selectedMetric cfgMin cfgMax = (0, 100) \<and>
   totalVendors [] = 0 \<and> totalSKUs [] = 0 \<and>
   avgPriceAllRegions formatCurrency [] = ''$0.00'' \<and>
   (data \<noteq> [] \<longrightarrow>
      fst (heatmapRange data selectedMetric (Some lo) cfgMax) = lo \<and>
      snd (heatmapRange data selectedMetric cfgMin (Some hi)) = hi \<and>
      fst (heatmapRange data Avg_price None cfgMax) \<in> avg_price ` set data \<and>
      (\<forall>d \<in> set data. fst (heatmapRange data Avg_price None cfgMax) \<le> avg_price d) \<and>
      snd (heatmapRange data Avg_price cfgMin None) \<in> avg_price ` set data \<and>
      (\<forall>d \<in> set data. avg_price d \<le> snd (heatmapRange data Avg_price cfgMin None)) \<and>
      fst (heatmapRange data Vendor_count None cfgMax) \<in> vendor_count ` set data \<and>
      (\<forall>d \<in> set data. fst (heatmapRange data Vendor_count None cfgMax) \<le> vendor_count d) \<and>
      snd (heatmapRange data Vendor_count cfgMin None) \<in> vendor_count ` set data \<and>
      (\<forall>d \<in> set data. vendor_count d \<le> snd (heatmapRange data Vendor_count cfgMin None)) \<and>
      fst (heatmapRange data Price_index None cfgMax) \<in> price_index ` set data \<and>
      (\<forall>d \<in> set data. fst (heatmapRange data Price_index None cfgMax) \<le> price_index d) \<and>
      snd (heatmapRange data Price_index cfgMin None) \<in> price_index ` set data \<and>
      (\<forall>d \<in> set data. price_index d \<le> snd (heatmapRange data Price_index cfgMin None)))"
proof -
  have empty: "heatmapRange [] selectedMetric cfgMin cfgMax = (0, 100) \<and>
      totalVendors [] = 0 \<and> totalSKUs [] = 0 \<and>
      avgPriceAllRegions formatCurrency [] = ''$0.00''"
    by (simp add: heatmapRange_def totalVendors_def totalSKUs_def avgPriceAllRegions_def)
  have fields: "metricValue Avg_price ` set data = avg_price ` set data"
    "metricValue Vendor_count ` set data = vendor_count ` set data"
    "metricValue Price_index ` set data = price_index ` set data"
    by (simp_all add: image_def)
  have full: "fst (heatmapRange data selectedMetric (Some lo) cfgMax) = lo \<and>
      snd (heatmapRange data selectedMetric cfgMin (Some hi)) = hi \<and>
      fst (heatmapRange data Avg_price None cfgMax) \<in> avg_price ` set data \<and>
      (\<forall>d \<in> set data. fst (heatmapRange data Avg_price None cfgMax) \<le> avg_price d) \<and>
      snd (heatmapRange data Avg_price cfgMin None) \<in> avg_price ` set data \<and>
      (\<forall>d \<in> set data. avg_price d \<le> snd (heatmapRange data Avg_price cfgMin None)) \<and>
      fst (heatmapRange data Vendor_count None cfgMax) \<in> vendor_count ` set data \<and>
      (\<forall>d \<in> set data. fst (heatmapRange data Vendor_count None cfgMax) \<le> vendor_count d) \<and>
      snd (heatmapRange data Vendor_count cfgMin None) \<in> vendor_count ` set data \<and>
      (\<forall>d \<in> set data. vendor_count d \<le> snd (heatmapRange data Vendor_count cfgMin None)) \<and>
      fst (heatmapRange data Price_index None cfgMax) \<in> price_index ` set data \<and>
      (\<forall>d \<in> set data. fst (heatmapRange data Price_index None cfgMax) \<le> price_index d) \<and>
      snd (heatmapRange data Price_index cfgMin None) \<in> price_index ` set data \<and>
      (\<forall>d \<in> set data. price_index d \<le> snd (heatmapRange data Price_index cfgMin None))"
    if ne: "data \<noteq> []"
  proof -
    have ov: "fst (heatmapRange data selectedMetric (Some lo) cfgMax) = lo \<and>
        snd (heatmapRange data selectedMetric cfgMin (Some hi)) = hi"
      using ne by (simp add: heatmapRange_def Let_def)
    note a = heatmapRange_bounds [OF ne, where selectedMetric = Avg_price,
        unfolded fields metricValue.simps]
    note v = heatmapRange_bounds [OF ne, where selectedMetric = Vendor_count,
        unfolded fields metricValue.simps]
    note p = heatmapRange_bounds [OF ne, where selectedMetric = Price_index,
        unfolded fields metricValue.simps]
    from ov a v p show ?thesis
      by blast
  qed
  from empty full show ?thesis
    by blast
qed

theorem heatmap_empty_and_range_witness:
  "[CA, TX] \<noteq> [] \<and>
   heatmapRange [CA, TX] Avg_price None None = (19/10, 7/2) \<and>
   heatmapRange [CA, TX] Vendor_count None None = (8, 12) \<and>
   heatmapRange [CA, TX] Price_index None None = (0, 1) \<and>
   heatmapRange [CA, TX] Vendor_count (Some 0) (Some 5) = (0, 5) \<and>
   heatmapRange [] Vendor_count (Some 0) (Some 5) = (0, 100)"
  using heatmap_empty_and_range
    [where data = "[CA, TX]" and selectedMetric = Vendor_count and cfgMin = None
       and cfgMax = None and lo = 0 and hi = 5]
  by (simp add: heatmapRange_def Math_min_def Math_max_def CA_def TX_def)

subsection \<open>Vendor matrix: single-source flag\<close>

lemma singleton_iff_ex1: "(\<exists>x. A = {x}) \<longleftrightarrow> (\<exists>!x. x \<in> A)"
  by blast

lemma length_filter_one_iff:
  "length (filter P xs) = 1 \<longleftrightarrow> (\<exists>!i. i < length xs \<and> P (xs ! i))"
proof -
  let ?S = "{i. i < length xs \<and> P (xs ! i)}"
  have "length (filter P xs) = card ?S"
    by (rule length_filter_conv_card)
  moreover have "card ?S = 1 \<longleftrightarrow> (\<exists>i. ?S = {i})"
    by (simp add: card_1_singleton_iff)
  moreover have "(\<exists>i. ?S = {i}) \<longleftrightarrow> (\<exists>!i. i \<in> ?S)"
    by (rule singleton_iff_ex1)
  ultimately show ?thesis
    by simp
qed

text \<open>
  C4.  \<open>isSingleSource\<close> holds for a SKU exactly when one and only one position of the
  flattened matrix holds a cell of that SKU with \<open>has_pricing\<close> true.  So when it holds,
  putting one more priced cell of that SKU anywhere into any row makes it false.
\<close>

theorem isSingleSource_iff_exactly_one:
  "(isSingleSource matrix s \<longleftrightarrow>
      (\<exists>!i. i < length (concat matrix) \<and>
         sku_id (concat matrix ! i) = s \<and> has_pricing (concat matrix ! i))) \<and>
   (isSingleSource (rowsBefore @ [cellsBefore @ cellsAfter] @ rowsAfter) s \<and> sku_id c = s \<and> has_pricing c \<longrightarrow>
      \<not> isSingleSource (rowsBefore @ [cellsBefore @ c # cellsAfter] @ rowsAfter) s)"
proof -
  have "isSingleSource matrix s \<longleftrightarrow>
      (\<exists>!i. i < length (concat matrix) \<and>
         sku_id (concat matrix ! i) = s \<and> has_pricing (concat matrix ! i))"
    unfolding isSingleSource_def Let_def by (rule length_filter_one_iff)
  moreover have "\<not> isSingleSource (rowsBefore @ [cellsBefore @ c # cellsAfter] @ rowsAfter) s"
    if "isSingleSource (rowsBefore @ [cellsBefore @ cellsAfter] @ rowsAfter) s" and "sku_id c = s" and "has_pricing c"
    using that by (simp add: isSingleSource_def)
  ultimately show ?thesis
    by blast
qed

theorem isSingleSource_iff_exactly_one_witness:
  "isSingleSource ([] @ [[cell ''V1'' ''S1'' True] @ [cell ''V1'' ''S2'' False]] @
       [[cell ''V2'' ''S1'' False, cell ''V2'' ''S2'' False]]) ''S1'' \<and>
   sku_id (cell ''V2'' ''S1'' True) = ''S1'' \<and> has_pricing (cell ''V2'' ''S1'' True) \<and>
   \<not> isSingleSource ([] @ [[cell ''V1'' ''S1'' True] @ cell ''V2'' ''S1'' True # [cell ''V1'' ''S2'' False]] @
       [[cell ''V2'' ''S1'' False, cell ''V2'' ''S2'' False]]) ''S1''"
  using isSingleSource_iff_exactly_one
    [where rowsBefore = "[]" and cellsBefore = "[cell ''V1'' ''S1'' True]"
       and cellsAfter = "[cell ''V1'' ''S2'' False]"
       and rowsAfter = "[[cell ''V2'' ''S1'' False, cell ''V2'' ''S2'' False]]"
       and c = "cell ''V2'' ''S1'' True" and s = "''S1''"]
  by (simp add: isSingleSource_def cell_def)

subsection \<open>Vendor matrix: sorting by coverage\<close>

lemma insertBy_descending:
  "insertBy (\<lambda>a b. int (k b) - int (k a)) x ys = insort_key (\<lambda>v. - int (k v)) x ys"
  by (induction ys) simp_all

lemma array_sort_descending:
  "array_sort (\<lambda>a b. int (k b) - int (k a)) xs = sort_key (\<lambda>v. - int (k v)) xs"
proof -
  have "insertBy (\<lambda>a b. int (k b) - int (k a)) = insort_key (\<lambda>v. - int (k v))"
    by (intro ext) (rule insertBy_descending)
  then show ?thesis
    by (simp add: array_sort_def sort_key_def)
qed

lemma sort_descending_props:
  fixes k :: "'a \<Rightarrow> nat"
  defines "r \<equiv> array_sort (\<lambda>a b. int (k b) - int (k a))"
  shows "mset (r xs) = mset xs"
    and "sorted_wrt (\<lambda>x y. k y \<le> k x) (r xs)"
    and "filter (\<lambda>v. k v = n) (r xs) = filter (\<lambda>v. k v = n) xs"
proof -
  have r: "r xs = sort_key (\<lambda>v. - int (k v)) xs"
    by (simp add: r_def array_sort_descending)
  show "mset (r xs) = mset xs"
    by (simp add: r)
  have "sorted (map (\<lambda>v. - int (k v)) (r xs))"
    by (simp add: r)
  then show "sorted_wrt (\<lambda>x y. k y \<le> k x) (r xs)"
    by (simp add: sorted_map)
  have "filter (\<lambda>v. - int (k v) = - int n) (sort_key (\<lambda>v. - int (k v)) xs) =
      filter (\<lambda>v. - int (k v) = - int n) xs"
    by (rule sort_key_stable)
  then show "filter (\<lambda>v. k v = n) (r xs) = filter (\<lambda>v. k v = n) xs"
    by (simp add: r)
qed

text \<open>
  C8.  Sorting by coverage permutes the vendors into descending order of their count of
  priced cells: a vendor with strictly fewer priced cells never stands before one with
  more.  Vendors with the same count keep their input order.
\<close>

theorem sortedVendors_coverage_descending_stable:
  "mset (sortedVendors localeCompare vendors matrix Coverage) = mset vendors \<and>
   sorted_wrt (\<lambda>b a. coverageCount matrix a \<le> coverageCount matrix b)
     (sortedVendors localeCompare vendors matrix Coverage) \<and>
   (\<forall>i j. i < length vendors \<and> j < length vendors \<and>
      coverageCount matrix (sortedVendors localeCompare vendors matrix Coverage ! i) <
      coverageCount matrix (sortedVendors localeCompare vendors matrix Coverage ! j) \<longrightarrow> j < i) \<and>
   (\<forall>n. filter (\<lambda>v. coverageCount matrix v = n)
           (sortedVendors localeCompare vendors matrix Coverage) =
         filter (\<lambda>v. coverageCount matrix v = n) vendors)"
proof -
  let ?r = "sortedVendors localeCompare vendors matrix Coverage"
  let ?k = "coverageCount matrix"
  have r: "?r = array_sort (\<lambda>a b. int (?k b) - int (?k a)) vendors"
    by (simp add: sortedVendors_def)
  have perm: "mset ?r = mset vendors"
    unfolding r by (rule sort_descending_props)
  have desc: "sorted_wrt (\<lambda>b a. ?k a \<le> ?k b) ?r"
    unfolding r by (rule sort_descending_props)
  have stable: "filter (\<lambda>v. ?k v = n) ?r = filter (\<lambda>v. ?k v = n) vendors" for n
    unfolding r by (rule sort_descending_props)
  have len: "length ?r = length vendors"
    using perm by (rule mset_eq_length)
  have before: "j < i"
    if "i < length vendors" and "j < length vendors" and "?k (?r ! i) < ?k (?r ! j)" for i j
  proof (rule ccontr)
    assume "\<not> j < i"
    with that(3) have "i < j"
      by (cases "i = j") auto
    with desc that(2) len have "?k (?r ! j) \<le> ?k (?r ! i)"
      by (simp add: sorted_wrt_iff_nth_less)
    with that(3) show False
      by simp
  qed
  from perm desc before stable show ?thesis
    by blast
qed

lemma sample_counts:
  "coverageCount sampleMatrix (vendor ''A'') = 1"
  "coverageCount sampleMatrix (vendor ''B'') = 2"
  "coverageCount sampleMatrix (vendor ''C'') = 1"
  by (simp_all add: coverageCount_def sampleMatrix_def cell_def vendor_def)

theorem sortedVendors_coverage_descending_stable_witness:
  "coverageCount sampleMatrix (vendor ''A'') < coverageCount sampleMatrix (vendor ''B'') \<and>
   sortedVendors (\<lambda>a b. 0) [vendor ''A'', vendor ''B'', vendor ''C''] sampleMatrix Coverage =
     [vendor ''B'', vendor ''A'', vendor ''C''] \<and>
   filter (\<lambda>v. coverageCount sampleMatrix v = 1)
     (sortedVendors (\<lambda>a b. 0) [vendor ''A'', vendor ''B'', vendor ''C''] sampleMatrix Coverage) =
     [vendor ''A'', vendor ''C'']"
  using sortedVendors_coverage_descending_stable
    [where vendors = "[vendor ''A'', vendor ''B'', vendor ''C'']" and matrix = sampleMatrix
       and localeCompare = "\<lambda>a b. 0"]
  by (simp add: sortedVendors_def array_sort_def sample_counts)

subsection \<open>Search panel: filter changes\<close>

lemma js_or_Undefined_not_falsy:
  "js_or v Undefined \<noteq> Bool False \<and> js_or v Undefined \<noteq> Num 0 \<and> js_or v Undefined \<noteq> Str []"
  by (cases v) (auto simp: js_or_def)

lemma dispatched_handleFilterChange:
  "dispatched (handleFilterChange key v st) key = js_or v Undefined"
  by (simp add: dispatched_def handleFilterChange_def Let_def)

text \<open>
  C10.  \<open>handleFilterChange\<close> dispatches every falsy value as absent: the dispatched
  field is never \<open>false\<close>, \<open>0\<close> or the empty string.  Unchecking the
  \<open>Active SKUs only\<close> box dispatches \<open>is_active\<close> absent, and a minimum or maximum price
  that parses to 0 is dispatched absent.
\<close>

theorem handleFilterChange_coerces_falsy:
  "(\<not> truthy v \<longrightarrow> dispatched (handleFilterChange key v st) key = Undefined) \<and>
   dispatched (handleFilterChange key v st) key \<noteq> Bool False \<and>
   dispatched (handleFilterChange key v st) key \<noteq> Num 0 \<and>
   dispatched (handleFilterChange key v st) key \<noteq> Str [] \<and>
   dispatched (isActiveChange False st) Is_active = Undefined \<and>
   (parseFloat raw = 0 \<longrightarrow>
      dispatched (minPriceChange parseFloat raw st) Min_price = Undefined \<and>
      dispatched (maxPriceChange parseFloat raw st) Max_price = Undefined)"
  using js_or_Undefined_not_falsy [of v]
  by (simp add: dispatched_handleFilterChange isActiveChange_def minPriceChange_def
      maxPriceChange_def js_or_def)

theorem handleFilterChange_coerces_falsy_witness:
  "\<not> truthy (Bool False) \<and> (\<lambda>s. 0 :: real) ''0'' = 0 \<and>
   dispatched (handleFilterChange Is_active (Bool False) emptyPanel) Is_active = Undefined \<and>
   dispatched (minPriceChange (\<lambda>s. 0) ''0'' emptyPanel) Min_price = Undefined \<and>
   dispatched (maxPriceChange (\<lambda>s. 0) ''0'' emptyPanel) Max_price = Undefined \<and>
   dispatched (handleFilterChange Min_price (Num 5) emptyPanel) Min_price = Num 5"
  using handleFilterChange_coerces_falsy
    [where v = "Bool False" and key = Is_active and st = emptyPanel
       and parseFloat = "\<lambda>s. 0" and raw = "''0''"]
  by (simp add: dispatched_handleFilterChange js_or_def)

subsection \<open>Calibration slider: requests and responses\<close>

lemma settle_superseded:
  "c \<in> set (aborted st) \<Longrightarrow> settle c outcome st = st\<lparr>isLoading := False\<rparr>"
  by (simp add: settle_def)

lemma callInferenceAPI_aborts_previous:
  "abortControllerRef st = Some c \<Longrightarrow> c \<in> set (aborted (callInferenceAPI v st))"
  by (simp add: callInferenceAPI_def Let_def)

lemma latest_live_mounted: "latest_live (mounted a ci)"
  by (simp add: latest_live_def mounted_def)

lemma latest_live_callInferenceAPI:
  assumes "latest_live st"
  shows "latest_live (callInferenceAPI v st)"
proof -
  let ?n = "length (requests st)"
  have "c \<in> set (aborted (callInferenceAPI v st))" if "Suc c < Suc ?n" for c
  proof (cases "Suc c < ?n")
    case True
    with assms have "c \<in> set (aborted st)"
      by (simp add: latest_live_def)
    then show ?thesis
      by (simp add: callInferenceAPI_def Let_def split: option.splits)
  next
    case False
    with that have c: "c = ?n - 1" and ne: "requests st \<noteq> []"
      by auto
    with assms have "abortControllerRef st = Some c"
      by (simp add: latest_live_def)
    then show ?thesis
      by (simp add: callInferenceAPI_def Let_def)
  qed
  then show ?thesis
    by (simp add: latest_live_def callInferenceAPI_def Let_def)
qed

lemma latest_live_settle: "latest_live st \<Longrightarrow> latest_live (settle c outcome st)"
  by (cases outcome) (simp_all add: latest_live_def settle_def)

lemma latest_live_elapse:
  assumes "latest_live st"
  shows "latest_live (elapse now st)"
proof (cases "pending st")
  case None
  then show ?thesis
    using assms by (simp add: elapse_def)
next
  case (Some p)
  obtain due v where p: "p = (due, v)"
    by (cases p)
  have "latest_live (st\<lparr>pending := None, invocations := invocations st @ [(due, v)]\<rparr>)"
    using assms by (simp add: latest_live_def)
  then have "latest_live
      (callInferenceAPI v (st\<lparr>pending := None, invocations := invocations st @ [(due, v)]\<rparr>))"
    by (rule latest_live_callInferenceAPI)
  then show ?thesis
    using assms Some p by (simp add: elapse_def)
qed

lemma latest_live_handleSliderChange:
  "latest_live st \<Longrightarrow> latest_live (handleSliderChange now v st)"
  by (simp add: latest_live_def handleSliderChange_def debouncedInference_def)

lemma latest_live_occur: "latest_live st \<Longrightarrow> latest_live (occur e st)"
  by (cases e)
    (simp_all add: latest_live_elapse latest_live_handleSliderChange latest_live_settle)

lemma latest_live_history: "latest_live st \<Longrightarrow> latest_live (history events st)"
  unfolding history_def
  by (induction events arbitrary: st) (simp_all add: latest_live_occur)

text \<open>
  C2.  In every state a mounted slider can reach, each request but the last one sent has
  been cancelled, and the live controller is that of the last request.  When the
  \<open>fetch\<close> of such an earlier request settles, whatever the network answered, none of
  its data is applied: the slider value, the confidence interval, the AI-recommended
  value, the projected lift, the calibration score and the latency stay as they were.
  So only the most recent request can have its result applied.  The one thing the
  completion of a cancelled request does is what every completion does at its end: it
  clears the loading flag.
\<close>

theorem superseded_request_discarded:
  assumes "st = history events (mounted initialAiValue initialConfidenceInterval)"
    and "Suc c < length (requests st)"
  shows "c \<in> set (aborted st) \<and>
         abortControllerRef st = Some (length (requests st) - 1) \<and>
         settle c outcome st = st\<lparr>isLoading := False\<rparr> \<and>
         sliderValue (settle c outcome st) = sliderValue st \<and>
         confidenceInterval (settle c outcome st) = confidenceInterval st \<and>
         aiRecommendedValue (settle c outcome st) = aiRecommendedValue st \<and>
         projectedLift (settle c outcome st) = projectedLift st \<and>
         calibrationScore (settle c outcome st) = calibrationScore st \<and>
         latencyMs (settle c outcome st) = latencyMs st"
proof -
  have "latest_live st"
    unfolding assms(1) using latest_live_mounted by (rule latest_live_history)
  with assms(2) have ab: "c \<in> set (aborted st)"
    and ref: "abortControllerRef st = Some (length (requests st) - 1)"
    by (auto simp: latest_live_def)
  from ab have "settle c outcome st = st\<lparr>isLoading := False\<rparr>"
    by (simp add: settle_def)
  with ab ref show ?thesis
    by simp
qed

lemma overlap_state:
  "requests (history overlap (mounted 15 (10, 20))) = [(0, 10), (1, 15)]"
  "aborted (history overlap (mounted 15 (10, 20))) = [0]"
  "abortControllerRef (history overlap (mounted 15 (10, 20))) = Some 1"
  "confidenceInterval (history overlap (mounted 15 (10, 20))) = (10, 20)"
  "sliderValue (history overlap (mounted 15 (10, 20))) = 15"
  by (simp_all add: overlap_def history_def mounted_def elapse_def handleSliderChange_def
      debouncedInference_def callInferenceAPI_def Let_def)

theorem superseded_request_discarded_witness:
  "Suc 0 < length (requests (history overlap (mounted 15 (10, 20)))) \<and>
   0 \<in> set (aborted (history overlap (mounted 15 (10, 20)))) \<and>
   abortControllerRef (history overlap (mounted 15 (10, 20))) = Some 1 \<and>
   confidenceInterval (settle 0 (Responded_ok sampleResponse)
     (history overlap (mounted 15 (10, 20)))) = (10, 20) \<and>
   sliderValue (settle 0 (Responded_ok sampleResponse)
     (history overlap (mounted 15 (10, 20)))) = 15"
  using superseded_request_discarded
    [where events = overlap and initialAiValue = 15 and initialConfidenceInterval = "(10, 20)"
       and c = 0 and outcome = "Responded_ok sampleResponse", OF refl]
  by (simp add: overlap_state)

text \<open>
  C9.  When a request that was not superseded completes with an \<open>ok\<close> response, the
  confidence interval, the AI-recommended value, the projected lift, the calibration
  score and the latency take the values of the response, and the slider value stays as
  it was.  The only other change is that the loading flag is cleared.
\<close>

theorem settle_success_frame:
  assumes "c \<notin> set (aborted st)"
  shows "settle c (Responded_ok data) st =
           st\<lparr>confidenceInterval := confidence_interval data,
              aiRecommendedValue := ai_recommended_value data,
              projectedLift := projected_lift data,
              calibrationScore := calibration_score data,
              latencyMs := latency_ms data,
              isLoading := False\<rparr> \<and>
         confidenceInterval (settle c (Responded_ok data) st) = confidence_interval data \<and>
         aiRecommendedValue (settle c (Responded_ok data) st) = ai_recommended_value data \<and>
         projectedLift (settle c (Responded_ok data) st) = projected_lift data \<and>
         calibrationScore (settle c (Responded_ok data) st) = calibration_score data \<and>
         latencyMs (settle c (Responded_ok data) st) = latency_ms data \<and>
         sliderValue (settle c (Responded_ok data) st) = sliderValue st"
  using assms by (simp add: settle_def)

theorem settle_success_frame_witness:
  "0 \<notin> set (aborted (callInferenceAPI 20 (handleSliderChange 0 20 (mounted 15 (10, 20))))) \<and>
   confidenceInterval (settle 0 (Responded_ok sampleResponse)
      (callInferenceAPI 20 (handleSliderChange 0 20 (mounted 15 (10, 20))))) = (11, 19) \<and>
   aiRecommendedValue (settle 0 (Responded_ok sampleResponse)
      (callInferenceAPI 20 (handleSliderChange 0 20 (mounted 15 (10, 20))))) = 14 \<and>
   sliderValue (settle 0 (Responded_ok sampleResponse)
      (callInferenceAPI 20 (handleSliderChange 0 20 (mounted 15 (10, 20))))) = 20"
  using settle_success_frame
    [where c = 0 and data = sampleResponse
       and st = "callInferenceAPI 20 (handleSliderChange 0 20 (mounted 15 (10, 20)))"]
  by (simp add: callInferenceAPI_def handleSliderChange_def debouncedInference_def mounted_def
      sampleResponse_def Let_def)

subsection \<open>Calibration slider: debounced drags\<close>









end
